theory Spec2Isabelle
  imports Main
begin

section \<open>Data model\<close>

text \<open>
  The notebook \<^verbatim>\<open>mergem_reaction_mapping\<close> reads three attributes of a cobra
  metabolite or reaction: the identifier \<^verbatim>\<open>id\<close>, the compartment of a metabolite, and
  the \<^verbatim>\<open>metabolites\<close> and \<^verbatim>\<open>boundary\<close> attributes of a reaction. The stoichiometric
  coefficients of \<^verbatim>\<open>reaction.metabolites\<close> are never read (the code iterates over
  the keys only), so a reaction carries the list of its metabolites in iteration order.
  \<^verbatim>\<open>boundary\<close> is read as an attribute of the reaction; how cobra arrives at its
  value is outside the notebook.
\<close>

record metabolite =
  met_id :: string
  compartment :: string

record reaction =
  rxn_id :: string
  rxn_metabolites :: "metabolite list"
  boundary :: bool

record model =
  reactions :: "reaction list"
  metabolites :: "metabolite list"

section \<open>Transport classification\<close>

text \<open>
  \<^verbatim>\<open>
  def is_transport(reaction):
      compartments = {met.compartment for met in reaction.metabolites}
      if len(compartments) > 1:
          return 1
      elif reaction.boundary:
          return 1
      else:
          return 0
  \<close>
\<close>

definition is_transport :: "reaction \<Rightarrow> int" where
  "is_transport reaction =
     (let compartments = set (map compartment (rxn_metabolites reaction))
      in if card compartments > 1 then 1
         else if boundary reaction then 1
         else 0)"

section \<open>Identifier canonicalisation\<close>

text \<open>
  \<^verbatim>\<open>
  def extract_core_id(s):
      match = re.search(r'MNX(?:[^\_~]*)?', s)
      return match.group(0) if match else s
  \<close>
  The pattern is the literal \<^verbatim>\<open>MNX\<close> followed by an optional, greedy run of characters
  outside the class \<^verbatim>\<open>[\_~]\<close>; the escaped underscore stands for the underscore itself.
  At a given start position the pattern matches exactly when the literal is there, and
  the greedy run then takes every character up to the first separator.
  \<^verbatim>\<open>re.search\<close> tries the start positions from left to right and returns the first
  match, or \<^verbatim>\<open>None\<close>. The prefix and the separators are ASCII, so reading an
  identifier as its UTF-8 bytes gives the same match as reading it by code points.
\<close>

definition in_class :: "char \<Rightarrow> bool" where
  "in_class c = (c \<noteq> CHR ''_'' \<and> c \<noteq> CHR ''~'')"

definition re_match :: "string \<Rightarrow> string option" where
  "re_match s =
     (if take 3 s = ''MNX'' then Some (''MNX'' @ takeWhile in_class (drop 3 s)) else None)"

fun re_search :: "string \<Rightarrow> string option" where
  "re_search [] = re_match []"
| "re_search (c # cs) =
     (case re_match (c # cs) of Some g \<Rightarrow> Some g | None \<Rightarrow> re_search cs)"

definition extract_core_id :: "string \<Rightarrow> string" where
  "extract_core_id s = (case re_search s of Some g \<Rightarrow> g | None \<Rightarrow> s)"

section \<open>Tables and files\<close>

text \<open>
  A pandas data frame built from a dictionary of lists: the columns in insertion order,
  each with its name. The constructor raises \<^verbatim>\<open>ValueError\<close> when the lists do not all
  have the same length. A cell holds a string (an identifier) or an integer (the
  transport class).
\<close>

datatype error = TranslationError | ValueError

datatype cell = Str string | Num int

type_synonym data_frame = "(string \<times> cell list) list"

definition DataFrame :: "(string \<times> cell list) list \<Rightarrow> error + data_frame" where
  "DataFrame data =
     (if length (remdups (map (\<lambda>kv. length (snd kv)) data)) \<le> 1 then Inr data
      else Inl ValueError)"

definition column :: "data_frame \<Rightarrow> string \<Rightarrow> cell list option" where
  "column df name = map_of df name"

definition nrows :: "data_frame \<Rightarrow> nat" where
  "nrows df = (case df of [] \<Rightarrow> 0 | kv # _ \<Rightarrow> length (snd kv))"

text \<open>
  The output directory is a map from path to the table stored there; \<^verbatim>\<open>to_csv\<close>
  replaces whatever the path held. Writing is taken to succeed (the output directory
  exists and is writable).
\<close>

type_synonym filesystem = "string \<rightharpoonup> data_frame"

definition to_csv :: "data_frame \<Rightarrow> string \<Rightarrow> filesystem \<Rightarrow> filesystem" where
  "to_csv df path fs = fs(path \<mapsto> df)"

definition rxn_csv_path :: "string \<Rightarrow> string \<Rightarrow> string" where
  "rxn_csv_path output_mapping_path model_name =
     output_mapping_path @ ''/'' @ model_name @ ''_rxn_mergem_mapping.csv''"

definition met_csv_path :: "string \<Rightarrow> string \<Rightarrow> string" where
  "met_csv_path output_mapping_path model_name =
     output_mapping_path @ ''/'' @ model_name @ ''_met_mergem_mapping.csv''"

text \<open>The column of a given name in the table stored at a path, if there is one.\<close>

definition read_column :: "filesystem \<Rightarrow> string \<Rightarrow> string \<Rightarrow> cell list option" where
  "read_column fs path name = (case fs path of None \<Rightarrow> None | Some df \<Rightarrow> column df name)"

section \<open>Mapping one model\<close>

text \<open>
  \<^verbatim>\<open>mergem.translate\<close> is an external library: it is a parameter of the model, a
  function from a model and a namespace name to a translated model or an exception.
  \<^verbatim>\<open>
  def export_mergem_mapping(model, model_name, output_mapping_path):
      original_rxn_ids = [rxn.id for rxn in model.reactions]
      original_met_ids = [met.id for met in model.metabolites]
      mapped_model = mergem.translate(model, 'metanetx')
      metanetx_rxn_ids = [rxn.id for rxn in mapped_model.reactions]
      transport_rxn_class = [is_transport(rxn) for rxn in mapped_model.reactions]
      core_metanetx_rxn_ids = [extract_core_id(rxn.id) if not is_transport(rxn)
                               else 'Transport removed' for rxn in mapped_model.reactions]
      metanetx_met_ids = [met.id for met in mapped_model.metabolites]
      core_metanetx_met_ids = [extract_core_id(met.id) for met in mapped_model.metabolites]
      rxn_df = pd.DataFrame({'Original ID':original_rxn_ids,'Raw MetaNetX ID':metanetx_rxn_ids,
                             'transport':transport_rxn_class,'Final ID':core_metanetx_rxn_ids})
      met_df = pd.DataFrame({'Original ID':original_met_ids,'Raw MetaNetX ID':metanetx_met_ids,
                             'Final ID':core_metanetx_met_ids})
      rxn_df.to_csv(output_mapping_path + '/' + model_name + '_rxn_mergem_mapping.csv', index=False)
      met_df.to_csv(output_mapping_path + '/' + model_name + '_met_mergem_mapping.csv', index=False)
  \<close>
  The function returns nothing; its effect is on the files, so the model returns the
  exception raised, if any, and the files afterwards.
\<close>

type_synonym translator = "model \<Rightarrow> string \<Rightarrow> error + model"

definition export_mergem_mapping ::
  "translator \<Rightarrow> model \<Rightarrow> string \<Rightarrow> string \<Rightarrow> filesystem \<Rightarrow> (error + unit) \<times> filesystem" where
  "export_mergem_mapping translate model model_name output_mapping_path fs =
     (let original_rxn_ids = map rxn_id (reactions model);
          original_met_ids = map met_id (metabolites model)
      in case translate model ''metanetx'' of
           Inl e \<Rightarrow> (Inl e, fs)
         | Inr mapped_model \<Rightarrow>
             (let metanetx_rxn_ids = map rxn_id (reactions mapped_model);
                  transport_rxn_class = map is_transport (reactions mapped_model);
                  core_metanetx_rxn_ids =
                    map (\<lambda>rxn. if is_transport rxn = 0 then extract_core_id (rxn_id rxn)
                               else ''Transport removed'')
                        (reactions mapped_model);
                  metanetx_met_ids = map met_id (metabolites mapped_model);
                  core_metanetx_met_ids =
                    map (\<lambda>met. extract_core_id (met_id met)) (metabolites mapped_model)
              in case DataFrame [(''Original ID'', map Str original_rxn_ids),
                                 (''Raw MetaNetX ID'', map Str metanetx_rxn_ids),
                                 (''transport'', map Num transport_rxn_class),
                                 (''Final ID'', map Str core_metanetx_rxn_ids)] of
                   Inl e \<Rightarrow> (Inl e, fs)
                 | Inr rxn_df \<Rightarrow>
                     (case DataFrame [(''Original ID'', map Str original_met_ids),
                                      (''Raw MetaNetX ID'', map Str metanetx_met_ids),
                                      (''Final ID'', map Str core_metanetx_met_ids)] of
                        Inl e \<Rightarrow> (Inl e, fs)
                      | Inr met_df \<Rightarrow>
                          (Inr (),
                           to_csv met_df (met_csv_path output_mapping_path model_name)
                             (to_csv rxn_df (rxn_csv_path output_mapping_path model_name) fs)))))"

section \<open>Mapping a batch of models\<close>

text \<open>
  Each mapping cell of the notebook is a sequence of calls, one per model, with no
  exception handler around any of them:
  \<^verbatim>\<open>
  export_mergem_mapping(au_CHO, 'au_CHO', output_mapping_path)
  export_mergem_mapping(au_A_aegypti, 'au_A_aegypti', output_mapping_path)
  export_mergem_mapping(au_E_siliculosus, 'au_E_siliculosus', output_mapping_path)
  \<close>
  An exception raised by one call ends the cell: the calls after it do not run.
\<close>

fun run_cell ::
  "translator \<Rightarrow> string \<Rightarrow> (model \<times> string) list \<Rightarrow> filesystem \<Rightarrow> (error + unit) \<times> filesystem" where
  "run_cell translate output_mapping_path [] fs = (Inr (), fs)"
| "run_cell translate output_mapping_path ((model, model_name) # calls) fs =
     (case export_mergem_mapping translate model model_name output_mapping_path fs of
        (Inl e, fs') \<Rightarrow> (Inl e, fs')
      | (Inr u, fs') \<Rightarrow> run_cell translate output_mapping_path calls fs')"

definition output_mapping_path :: string where
  "output_mapping_path = ''mapping_results''"

definition mapping_AuReMe ::
  "translator \<Rightarrow> model \<Rightarrow> model \<Rightarrow> model \<Rightarrow> filesystem \<Rightarrow> (error + unit) \<times> filesystem" where
  "mapping_AuReMe translate au_CHO au_A_aegypti au_E_siliculosus fs =
     run_cell translate output_mapping_path
       [(au_CHO, ''au_CHO''), (au_A_aegypti, ''au_A_aegypti''),
        (au_E_siliculosus, ''au_E_siliculosus'')] fs"

section \<open>The specification's words for the canonical token\<close>

text \<open>
  The specification describes the canonical token by positions: the prefix occurs at
  position \<open>i\<close> of \<open>s\<close> when the three characters from \<open>i\<close> on are \<^verbatim>\<open>MNX\<close>; the first
  occurrence is the least such position; a string has no occurrence when no position
  below its length is one.
\<close>

definition occurs_at :: "string \<Rightarrow> nat \<Rightarrow> bool" where
  "occurs_at s i = (take 3 (drop i s) = ''MNX'')"

definition first_occurrence :: "string \<Rightarrow> nat \<Rightarrow> bool" where
  "first_occurrence s i = (occurs_at s i \<and> list_all (\<lambda>j. \<not> occurs_at s j) [0..<i])"

definition no_occurrence :: "string \<Rightarrow> bool" where
  "no_occurrence s = list_all (\<lambda>j. \<not> occurs_at s j) [0..<length s]"

section \<open>Example inputs\<close>

definition met_c :: metabolite where
  "met_c = \<lparr>met_id = ''MNXM5_c'', compartment = ''c''\<rparr>"

definition met_e :: metabolite where
  "met_e = \<lparr>met_id = ''MNXM5_e'', compartment = ''e''\<rparr>"

definition rxn_1c :: reaction where
  "rxn_1c = \<lparr>rxn_id = ''MNXR1_c'', rxn_metabolites = [met_c], boundary = False\<rparr>"

definition rxn_1e :: reaction where
  "rxn_1e = \<lparr>rxn_id = ''MNXR1_e'', rxn_metabolites = [met_e], boundary = False\<rparr>"

definition rxn_2 :: reaction where
  "rxn_2 = \<lparr>rxn_id = ''MNXR2'', rxn_metabolites = [met_c], boundary = True\<rparr>"

definition rxn_3 :: reaction where
  "rxn_3 = \<lparr>rxn_id = ''MNXR3_c'', rxn_metabolites = [met_c, met_e], boundary = False\<rparr>"

definition rxn_empty :: reaction where
  "rxn_empty = \<lparr>rxn_id = ''MNXR4'', rxn_metabolites = [], boundary = True\<rparr>"

definition model_a :: model where
  "model_a = \<lparr>reactions = [rxn_1c, rxn_1e, rxn_2, rxn_3], metabolites = [met_c, met_e]\<rparr>"

definition model_b :: model where
  "model_b = \<lparr>reactions = [rxn_1c, rxn_2], metabolites = [met_c]\<rparr>"

definition model_unnamed :: model where
  "model_unnamed =
     \<lparr>reactions = [\<lparr>rxn_id = [], rxn_metabolites = [], boundary = False\<rparr>],
      metabolites = [\<lparr>met_id = [], compartment = ''c''\<rparr>]\<rparr>"

definition model_none :: model where
  "model_none = \<lparr>reactions = [], metabolites = []\<rparr>"

text \<open>A translator that leaves every model as it is, and one that rejects a model
  without reactions.\<close>

definition translate_same :: translator where
  "translate_same m namespace = Inr m"

definition translate_nonempty :: translator where
  "translate_nonempty m namespace =
     (if reactions m = [] then Inl TranslationError else Inr m)"

section \<open>Facts about the search\<close>

lemma re_match_None_iff: "re_match s = None \<longleftrightarrow> \<not> occurs_at s 0"
  by (simp add: re_match_def occurs_at_def)

lemma occurs_at_Cons_Suc: "occurs_at (c # cs) (Suc j) = occurs_at cs j"
  by (simp add: occurs_at_def)

lemma occurs_at_less: "occurs_at s i \<Longrightarrow> i < length s"
proof (rule ccontr)
  assume o: "occurs_at s i" and "\<not> i < length s"
  then have "drop i s = []" by simp
  with o show False by (simp add: occurs_at_def)
qed

lemma re_search_first:
  "occurs_at s i \<Longrightarrow> \<forall>j<i. \<not> occurs_at s j \<Longrightarrow>
   re_search s = Some (''MNX'' @ takeWhile in_class (drop 3 (drop i s)))"
proof (induction s arbitrary: i)
  case Nil
  then show ?case by (simp add: occurs_at_def)
next
  case (Cons c cs)
  show ?case
  proof (cases i)
    case 0
    with Cons.prems(1) have "take 3 (c # cs) = ''MNX''" by (simp add: occurs_at_def)
    then show ?thesis using 0 by (simp add: re_match_def)
  next
    case (Suc k)
    with Cons.prems(2) have "\<not> occurs_at (c # cs) 0" by simp
    then have m: "re_match (c # cs) = None" by (simp add: re_match_None_iff)
    have a: "occurs_at cs k" using Cons.prems(1) Suc by (simp add: occurs_at_Cons_Suc)
    have b: "\<forall>j<k. \<not> occurs_at cs j"
      using Cons.prems(2) Suc occurs_at_Cons_Suc by (metis Suc_less_eq)
    show ?thesis using Cons.IH [OF a b] m Suc by simp
  qed
qed

lemma re_search_none: "\<forall>j. \<not> occurs_at s j \<Longrightarrow> re_search s = None"
proof (induction s)
  case Nil
  then show ?case by (simp add: re_match_def)
next
  case (Cons c cs)
  from Cons.prems have "re_match (c # cs) = None" by (simp add: re_match_None_iff)
  moreover have "\<forall>j. \<not> occurs_at cs j" using Cons.prems occurs_at_Cons_Suc by metis
  ultimately show ?case using Cons.IH by simp
qed

lemma re_search_Some_form:
  "re_search s = Some g \<Longrightarrow> \<exists>t. g = ''MNX'' @ takeWhile in_class t"
proof (induction s)
  case Nil
  then show ?case by (simp add: re_match_def)
next
  case (Cons c cs)
  then show ?case by (auto simp: re_match_def split: option.splits if_splits)
qed

lemma re_search_prefix: "re_search (''MNX'' @ t) = Some (''MNX'' @ takeWhile in_class t)"
  by (simp add: re_match_def)

lemma re_search_fixed: "re_search s = Some g \<Longrightarrow> re_search g = Some g"
proof -
  assume "re_search s = Some g"
  then obtain t where g: "g = ''MNX'' @ takeWhile in_class t"
    using re_search_Some_form by blast
  show "re_search g = Some g"
    unfolding g using re_search_prefix [of "takeWhile in_class t"]
    by (simp only: takeWhile_idem)
qed

lemma no_occurrence_all: "no_occurrence s \<Longrightarrow> \<forall>j. \<not> occurs_at s j"
  using occurs_at_less by (auto simp: no_occurrence_def list_all_iff)

lemma occurrence_cases: "(\<exists>i. first_occurrence s i) \<or> no_occurrence s"
proof (cases "\<exists>i. occurs_at s i")
  case True
  then obtain i where "occurs_at s i" and "\<forall>j<i. \<not> occurs_at s j"
    using exists_least_iff [of "occurs_at s"] by blast
  then have "first_occurrence s i" by (simp add: first_occurrence_def list_all_iff)
  then show ?thesis by blast
next
  case False
  then show ?thesis by (simp add: no_occurrence_def list_all_iff)
qed

lemma extract_first:
  assumes "first_occurrence s i"
  shows "extract_core_id s =
    ''MNX'' @ takeWhile (\<lambda>c. c \<noteq> CHR ''~'' \<and> c \<noteq> CHR ''_'') (drop (i + 3) s)"
proof -
  from assms have a: "occurs_at s i" and b: "\<forall>j<i. \<not> occurs_at s j"
    by (simp_all add: first_occurrence_def list_all_iff)
  have c: "in_class = (\<lambda>c. c \<noteq> CHR ''~'' \<and> c \<noteq> CHR ''_'')"
    by (auto simp: in_class_def fun_eq_iff)
  have d: "drop 3 (drop i s) = drop (i + 3) s" by (simp add: add.commute)
  have "re_search s = Some (''MNX'' @ takeWhile in_class (drop (i + 3) s))"
    using re_search_first [OF a b] by (simp only: d)
  then show ?thesis by (simp add: extract_core_id_def c)
qed

lemma extract_none: "no_occurrence s \<Longrightarrow> extract_core_id s = s"
  using re_search_none [OF no_occurrence_all] by (simp add: extract_core_id_def)

lemma extract_core_id_Nil_iff: "extract_core_id s = [] \<longleftrightarrow> s = []"
proof (cases "re_search s")
  case None
  then show ?thesis by (simp add: extract_core_id_def)
next
  case (Some g)
  then obtain t where "g = ''MNX'' @ takeWhile in_class t"
    using re_search_Some_form by blast
  moreover have "s \<noteq> []" using Some by (auto simp: re_match_def)
  ultimately show ?thesis using Some by (simp add: extract_core_id_def)
qed

lemma extract_core_id_sentinel_iff:
  "extract_core_id s = ''Transport removed'' \<longleftrightarrow> s = ''Transport removed''"
proof (cases "re_search s")
  case None
  then show ?thesis by (simp add: extract_core_id_def)
next
  case (Some g)
  then obtain t where g: "g = ''MNX'' @ takeWhile in_class t"
    using re_search_Some_form by blast
  have "re_search ''Transport removed'' = None" by (simp add: re_match_def)
  with Some have "s \<noteq> ''Transport removed''" by auto
  then show ?thesis using Some g by (simp add: extract_core_id_def)
qed

section \<open>Facts about the classifier\<close>

lemma is_transport_cases:
  "is_transport r =
     (if 1 < card (set (map compartment (rxn_metabolites r))) \<or> boundary r then 1 else 0)"
  by (simp add: is_transport_def Let_def)

lemma is_transport_01: "is_transport r = 0 \<longleftrightarrow> is_transport r \<noteq> 1"
  by (simp add: is_transport_cases)

lemma card_gt1_iff:
  "1 < card (set (map compartment ms)) \<longleftrightarrow>
     (\<exists>a\<in>set ms. \<exists>b\<in>set ms. compartment a \<noteq> compartment b)"
proof -
  have "card (compartment ` set ms) \<le> Suc 0 \<longleftrightarrow>
          (\<forall>a\<in>compartment ` set ms. \<forall>b\<in>compartment ` set ms. a = b)"
    by (rule card_le_Suc0_iff_eq) simp
  then show ?thesis by (auto simp: not_le [symmetric] simp del: not_le)
qed

section \<open>Facts about the export\<close>

lemma DataFrame4:
  "DataFrame [(a, ca), (b, cb), (c, cc), (d, cd)] =
     (if length ca = length cb \<and> length cb = length cc \<and> length cc = length cd
      then Inr [(a, ca), (b, cb), (c, cc), (d, cd)] else Inl ValueError)"
  by (auto simp: DataFrame_def)

lemma DataFrame3:
  "DataFrame [(a, ca), (b, cb), (c, cc)] =
     (if length ca = length cb \<and> length cb = length cc
      then Inr [(a, ca), (b, cb), (c, cc)] else Inl ValueError)"
  by (auto simp: DataFrame_def)

lemma csv_paths_differ: "rxn_csv_path out name \<noteq> met_csv_path out name"
  by (simp add: rxn_csv_path_def met_csv_path_def)

lemma export_translated:
  assumes "translate model ''metanetx'' = Inr mapped_model"
    and "length (reactions mapped_model) = length (reactions model)"
    and "length (metabolites mapped_model) = length (metabolites model)"
  shows "export_mergem_mapping translate model name out fs =
     (Inr (),
      fs(rxn_csv_path out name \<mapsto>
           [(''Original ID'', map (\<lambda>rxn. Str (rxn_id rxn)) (reactions model)),
            (''Raw MetaNetX ID'', map (\<lambda>rxn. Str (rxn_id rxn)) (reactions mapped_model)),
            (''transport'', map (\<lambda>rxn. Num (is_transport rxn)) (reactions mapped_model)),
            (''Final ID'',
             map (\<lambda>rxn. Str (if is_transport rxn = 0 then extract_core_id (rxn_id rxn)
                              else ''Transport removed''))
               (reactions mapped_model))],
         met_csv_path out name \<mapsto>
           [(''Original ID'', map (\<lambda>met. Str (met_id met)) (metabolites model)),
            (''Raw MetaNetX ID'', map (\<lambda>met. Str (met_id met)) (metabolites mapped_model)),
            (''Final ID'',
             map (\<lambda>met. Str (extract_core_id (met_id met))) (metabolites mapped_model))]))"
  using assms
  by (simp add: export_mergem_mapping_def DataFrame4 DataFrame3 to_csv_def o_def)

lemma export_mismatch:
  assumes "translate model ''metanetx'' = Inr mapped_model"
    and "length (reactions mapped_model) \<noteq> length (reactions model)
         \<or> length (metabolites mapped_model) \<noteq> length (metabolites model)"
  shows "export_mergem_mapping translate model name out fs = (Inl ValueError, fs)"
  using assms
  by (auto simp add: export_mergem_mapping_def DataFrame4 DataFrame3 to_csv_def o_def)

lemma export_failed:
  assumes "translate model ''metanetx'' = Inl e"
  shows "export_mergem_mapping translate model name out fs = (Inl e, fs)"
  using assms by (simp add: export_mergem_mapping_def)

lemma exported_rxn_columns:
  assumes "translate model ''metanetx'' = Inr mapped_model"
    and "length (reactions mapped_model) = length (reactions model)"
    and "length (metabolites mapped_model) = length (metabolites model)"
  shows "read_column (snd (export_mergem_mapping translate model name out fs))
           (rxn_csv_path out name) ''Final ID'' =
         Some (map (\<lambda>rxn. Str (if is_transport rxn = 0 then extract_core_id (rxn_id rxn)
                              else ''Transport removed''))
               (reactions mapped_model))"
  by (simp add: export_translated [of translate model mapped_model, OF assms] read_column_def column_def csv_paths_differ)

lemma exported_met_columns:
  assumes "translate model ''metanetx'' = Inr mapped_model"
    and "length (reactions mapped_model) = length (reactions model)"
    and "length (metabolites mapped_model) = length (metabolites model)"
  shows "read_column (snd (export_mergem_mapping translate model name out fs))
           (met_csv_path out name) ''Final ID'' =
         Some (map (\<lambda>met. Str (extract_core_id (met_id met))) (metabolites mapped_model))"
  by (simp add: export_translated [of translate model mapped_model, OF assms] read_column_def column_def)

lemma run_cell_append_ok:
  "fst (run_cell translate out before fs) = Inr () \<Longrightarrow>
   run_cell translate out (before @ calls) fs =
     run_cell translate out calls (snd (run_cell translate out before fs))"
proof (induction before arbitrary: fs)
  case Nil
  then show ?case by simp
next
  case (Cons call before)
  obtain model name where call: "call = (model, name)" by (cases call)
  obtain r fs' where e: "export_mergem_mapping translate model name out fs = (r, fs')"
    by (cases "export_mergem_mapping translate model name out fs")
  show ?case
  proof (cases r)
    case (Inl err)
    with Cons.prems call e show ?thesis by simp
  next
    case (Inr u)
    with Cons.prems call e have "fst (run_cell translate out before fs') = Inr ()" by simp
    from Cons.IH [OF this] show ?thesis using call e Inr by simp
  qed
qed

lemma translate_nonempty_ok:
  "reactions m \<noteq> [] \<Longrightarrow> translate_nonempty m ''metanetx'' = Inr m"
  by (simp add: translate_nonempty_def)

lemma csv_path_eq_iff:
  "rxn_csv_path out n = rxn_csv_path out n' \<longleftrightarrow> n = n'"
  "met_csv_path out n = met_csv_path out n' \<longleftrightarrow> n = n'"
  "rxn_csv_path out n \<noteq> met_csv_path out n'"
  "met_csv_path out n \<noteq> rxn_csv_path out n'"
proof -
  have a: "n @ ''_rxn_mergem_mapping.csv'' \<noteq> n' @ ''_met_mergem_mapping.csv''"
    by (subst append_eq_append_conv) simp_all
  have b: "n' @ ''_met_mergem_mapping.csv'' \<noteq> n @ ''_rxn_mergem_mapping.csv''"
    by (subst append_eq_append_conv) simp_all
  show "rxn_csv_path out n = rxn_csv_path out n' \<longleftrightarrow> n = n'"
    by (simp add: rxn_csv_path_def)
  show "met_csv_path out n = met_csv_path out n' \<longleftrightarrow> n = n'"
    by (simp add: met_csv_path_def)
  show "rxn_csv_path out n \<noteq> met_csv_path out n'"
    using a by (simp add: rxn_csv_path_def met_csv_path_def)
  show "met_csv_path out n \<noteq> rxn_csv_path out n'"
    using a by (simp add: rxn_csv_path_def met_csv_path_def)
qed

lemma export_cases:
  obtains (failed) e where "translate model ''metanetx'' = Inl e"
      "export_mergem_mapping translate model name out fs = (Inl e, fs)"
  | (mismatch) mapped_model where "translate model ''metanetx'' = Inr mapped_model"
      "export_mergem_mapping translate model name out fs = (Inl ValueError, fs)"
  | (written) mapped_model where "translate model ''metanetx'' = Inr mapped_model"
      "length (reactions mapped_model) = length (reactions model)"
      "length (metabolites mapped_model) = length (metabolites model)"
proof (cases "translate model ''metanetx''")
  case (Inl e)
  then show ?thesis using export_failed [of translate model e name out fs] failed by blast
next
  case (Inr mapped_model)
  show ?thesis
  proof (cases "length (reactions mapped_model) = length (reactions model)
      \<and> length (metabolites mapped_model) = length (metabolites model)")
    case True
    then show ?thesis using Inr written by blast
  next
    case False
    then show ?thesis
      using Inr export_mismatch [of translate model mapped_model name out fs] mismatch by blast
  qed
qed

lemma export_error_unchanged:
  "fst (export_mergem_mapping translate model name out fs) = Inl e \<Longrightarrow>
   export_mergem_mapping translate model name out fs = (Inl e, fs)"
proof (cases rule: export_cases [of translate model name out fs])
  case (failed e')
  assume "fst (export_mergem_mapping translate model name out fs) = Inl e"
  with failed show ?thesis by simp
next
  case (mismatch mapped_model)
  assume "fst (export_mergem_mapping translate model name out fs) = Inl e"
  with mismatch show ?thesis by simp
next
  case (written mapped_model)
  assume "fst (export_mergem_mapping translate model name out fs) = Inl e"
  with export_translated [of translate model mapped_model name out fs, OF written]
  show ?thesis by simp
qed

lemma export_other_paths:
  assumes "n' \<noteq> name"
  shows "snd (export_mergem_mapping translate model name out fs) (rxn_csv_path out n') =
           fs (rxn_csv_path out n')"
    and "snd (export_mergem_mapping translate model name out fs) (met_csv_path out n') =
           fs (met_csv_path out n')"
proof -
  have "snd (export_mergem_mapping translate model name out fs) (rxn_csv_path out n') =
           fs (rxn_csv_path out n')
      \<and> snd (export_mergem_mapping translate model name out fs) (met_csv_path out n') =
           fs (met_csv_path out n')"
  proof (cases rule: export_cases [of translate model name out fs])
    case (failed e)
    then show ?thesis by simp
  next
    case (mismatch mapped_model)
    then show ?thesis by simp
  next
    case (written mapped_model)
    show ?thesis
      using assms
      by (simp add: export_translated [of translate model mapped_model name out fs, OF written]
          csv_path_eq_iff)
  qed
  then show "snd (export_mergem_mapping translate model name out fs) (rxn_csv_path out n') =
           fs (rxn_csv_path out n')"
    and "snd (export_mergem_mapping translate model name out fs) (met_csv_path out n') =
           fs (met_csv_path out n')"
    by simp_all
qed

lemma run_cell_other_paths:
  "n' \<notin> snd ` set calls \<Longrightarrow>
   snd (run_cell translate out calls fs) (rxn_csv_path out n') = fs (rxn_csv_path out n')
   \<and> snd (run_cell translate out calls fs) (met_csv_path out n') = fs (met_csv_path out n')"
proof (induction calls arbitrary: fs)
  case Nil
  then show ?case by simp
next
  case (Cons call calls)
  obtain model name where call: "call = (model, name)" by (cases call)
  obtain r fs' where e: "export_mergem_mapping translate model name out fs = (r, fs')"
    by (cases "export_mergem_mapping translate model name out fs")
  from Cons.prems call have ne: "n' \<noteq> name" and rest: "n' \<notin> snd ` set calls" by auto
  have f: "fs' (rxn_csv_path out n') = fs (rxn_csv_path out n')"
    "fs' (met_csv_path out n') = fs (met_csv_path out n')"
    using export_other_paths [OF ne, of translate model out fs] e by simp_all
  show ?case
  proof (cases r)
    case (Inl err)
    with call e f show ?thesis by simp
  next
    case (Inr u)
    with call e f Cons.IH [OF rest, of fs'] show ?thesis by simp
  qed
qed

lemma run_cell_ok_files:
  "fst (run_cell translate out calls fs) = Inr () \<Longrightarrow> distinct (map snd calls) \<Longrightarrow>
   (m, n) \<in> set calls \<Longrightarrow>
   \<exists>mapped. translate m ''metanetx'' = Inr mapped
     \<and> snd (run_cell translate out calls fs) (rxn_csv_path out n) =
         Some [(''Original ID'', map (\<lambda>rxn. Str (rxn_id rxn)) (reactions m)),
               (''Raw MetaNetX ID'', map (\<lambda>rxn. Str (rxn_id rxn)) (reactions mapped)),
               (''transport'', map (\<lambda>rxn. Num (is_transport rxn)) (reactions mapped)),
               (''Final ID'',
                map (\<lambda>rxn. Str (if is_transport rxn = 0 then extract_core_id (rxn_id rxn)
                                 else ''Transport removed''))
                  (reactions mapped))]
     \<and> snd (run_cell translate out calls fs) (met_csv_path out n) =
         Some [(''Original ID'', map (\<lambda>met. Str (met_id met)) (metabolites m)),
               (''Raw MetaNetX ID'', map (\<lambda>met. Str (met_id met)) (metabolites mapped)),
               (''Final ID'',
                map (\<lambda>met. Str (extract_core_id (met_id met))) (metabolites mapped))]"
proof (induction calls arbitrary: fs)
  case Nil
  then show ?case by simp
next
  case (Cons call calls)
  obtain model name where call: "call = (model, name)" by (cases call)
  show ?case
  proof (cases rule: export_cases [of translate model name out fs])
    case (failed e)
    with Cons.prems(1) call show ?thesis by simp
  next
    case (mismatch mapped_model)
    with Cons.prems(1) call show ?thesis by simp
  next
    case (written mapped_model)
    note w = export_translated [of translate model mapped_model name out fs, OF written]
    from Cons.prems(1) call w
    have ok: "fst (run_cell translate out calls (snd (export_mergem_mapping translate model name out fs))) = Inr ()"
      by simp
    have step: "run_cell translate out (call # calls) fs =
        run_cell translate out calls (snd (export_mergem_mapping translate model name out fs))"
      using call w by simp
    from Cons.prems(2) call have d: "distinct (map snd calls)" and fresh: "name \<notin> snd ` set calls"
      by auto
    show ?thesis
    proof (cases "(m, n) \<in> set calls")
      case True
      from Cons.IH [OF ok d True] show ?thesis unfolding step .
    next
      case False
      with Cons.prems(3) call have mn: "m = model" "n = name" by auto
      show ?thesis
        unfolding step mn
        using run_cell_other_paths [OF fresh, of translate out
            "snd (export_mergem_mapping translate model name out fs)"] written(1)
        by (simp add: w csv_path_eq_iff)
    qed
  qed
qed

section \<open>The canonicaliser\<close>

text \<open>
  Claim C2. For every string, \<open>extract_core_id\<close> returns the substring that begins at
  the first occurrence of \<^verbatim>\<open>MNX\<close> and runs through the following characters up to the
  first \<^verbatim>\<open>~\<close> or \<^verbatim>\<open>_\<close>; a string without an occurrence is returned as it is. Every
  string is in one of the two cases, so the function has a result on every input, the
  empty string included. The three identifiers of the specification give
  \<^verbatim>\<open>MNXR12345\<close>, \<^verbatim>\<open>MNXR999\<close> and \<^verbatim>\<open>rxn001\<close>.
\<close>

theorem extract_core_id_first_match:
  "(first_occurrence s i \<longrightarrow>
      extract_core_id s =
        ''MNX'' @ takeWhile (\<lambda>c. c \<noteq> CHR ''~'' \<and> c \<noteq> CHR ''_'') (drop (i + 3) s))
   \<and> (no_occurrence s \<longrightarrow> extract_core_id s = s)
   \<and> ((\<exists>k. first_occurrence s k) \<or> no_occurrence s)
   \<and> extract_core_id ''MNXR12345_c'' = ''MNXR12345''
   \<and> extract_core_id ''MNXR999~extra'' = ''MNXR999''
   \<and> extract_core_id ''rxn001'' = ''rxn001''
   \<and> extract_core_id [] = []"
proof -
  have "extract_core_id ''MNXR12345_c'' = ''MNXR12345''"
    by (simp add: extract_core_id_def re_match_def in_class_def)
  moreover have "extract_core_id ''MNXR999~extra'' = ''MNXR999''"
    by (simp add: extract_core_id_def re_match_def in_class_def)
  moreover have "extract_core_id ''rxn001'' = ''rxn001''"
    by (simp add: extract_core_id_def re_match_def)
  moreover have "extract_core_id [] = []"
    by (simp add: extract_core_id_def re_match_def)
  ultimately show ?thesis
    using extract_first [of s i] extract_none [of s] occurrence_cases [of s] by blast
qed

theorem extract_core_id_first_match_witness:
  "first_occurrence ''R_MNXR7~a_MNXR9'' 2
   \<and> extract_core_id ''R_MNXR7~a_MNXR9'' = ''MNXR7''
   \<and> no_occurrence ''rxn001''
   \<and> extract_core_id ''rxn001'' = ''rxn001''"
proof -
  have a: "first_occurrence ''R_MNXR7~a_MNXR9'' 2" by code_simp
  have b: "no_occurrence ''rxn001''" by code_simp
  show ?thesis
    using a b extract_core_id_first_match [of "''R_MNXR7~a_MNXR9''" 2]
      extract_core_id_first_match [of "''rxn001''" 0]
    by simp
qed

text \<open>
  Claim C4. The canonicaliser is idempotent: applied to its own result it returns that
  result.
\<close>

theorem extract_core_id_idempotent:
  "extract_core_id (extract_core_id s) = extract_core_id s"
proof (cases "re_search s")
  case None
  then show ?thesis by (simp add: extract_core_id_def)
next
  case (Some g)
  then have "re_search g = Some g" by (rule re_search_fixed)
  with Some show ?thesis by (simp add: extract_core_id_def)
qed

theorem extract_core_id_idempotent_witness:
  "extract_core_id (extract_core_id ''R_MNXR12345_c~x'') = ''MNXR12345''"
  using extract_core_id_idempotent [of "''R_MNXR12345_c~x''"]
  by (simp add: extract_core_id_def re_match_def in_class_def)

section \<open>The transport classifier\<close>

text \<open>
  Claim C3. A reaction is classified transport exactly when its metabolites touch more
  than one distinct compartment or its boundary flag is set. Touching more than one
  compartment is stated twice: by the size of the set of compartments, as the code
  computes it, and by two metabolites of the reaction lying in different compartments.
  A reaction over two compartments is transport whatever its boundary flag; a reaction
  in one compartment is transport with the flag set and not transport without it.
\<close>

theorem is_transport_iff:
  "(is_transport r = 1 \<longleftrightarrow>
      1 < card (set (map compartment (rxn_metabolites r))) \<or> boundary r)
   \<and> (is_transport r = 1 \<longleftrightarrow>
      (\<exists>a\<in>set (rxn_metabolites r). \<exists>b\<in>set (rxn_metabolites r).
          compartment a \<noteq> compartment b) \<or> boundary r)
   \<and> (is_transport r = 0 \<longleftrightarrow> is_transport r \<noteq> 1)
   \<and> (card (set (map compartment (rxn_metabolites r))) = 2 \<longrightarrow>
        is_transport (r\<lparr>boundary := True\<rparr>) = 1 \<and> is_transport (r\<lparr>boundary := False\<rparr>) = 1)
   \<and> (card (set (map compartment (rxn_metabolites r))) = 1 \<and> boundary r \<longrightarrow>
        is_transport r = 1)
   \<and> (card (set (map compartment (rxn_metabolites r))) = 1 \<and> \<not> boundary r \<longrightarrow>
        is_transport r = 0)"
  unfolding card_gt1_iff [symmetric] by (simp add: is_transport_cases)

theorem is_transport_iff_witness:
  "card (set (map compartment (rxn_metabolites rxn_3))) = 2
   \<and> is_transport (rxn_3\<lparr>boundary := True\<rparr>) = 1 \<and> is_transport rxn_3 = 1
   \<and> card (set (map compartment (rxn_metabolites rxn_2))) = 1 \<and> boundary rxn_2
   \<and> is_transport rxn_2 = 1
   \<and> card (set (map compartment (rxn_metabolites rxn_1c))) = 1 \<and> \<not> boundary rxn_1c
   \<and> is_transport rxn_1c = 0"
proof -
  have a: "card (set (map compartment (rxn_metabolites rxn_3))) = 2"
    by (simp add: rxn_3_def met_c_def met_e_def)
  have b: "card (set (map compartment (rxn_metabolites rxn_2))) = 1 \<and> boundary rxn_2"
    by (simp add: rxn_2_def met_c_def)
  have c: "card (set (map compartment (rxn_metabolites rxn_1c))) = 1 \<and> \<not> boundary rxn_1c"
    by (simp add: rxn_1c_def met_c_def)
  have d: "rxn_3\<lparr>boundary := False\<rparr> = rxn_3" by (simp add: rxn_3_def)
  show ?thesis
    using a b c is_transport_iff [of rxn_3] is_transport_iff [of rxn_2]
      is_transport_iff [of rxn_1c]
    by (simp only: d) simp
qed

text \<open>
  Claim C10. For a reaction without metabolites the classification is the boundary flag
  alone: transport exactly when the flag is set.
\<close>

theorem is_transport_without_metabolites:
  "rxn_metabolites r = [] \<Longrightarrow>
     (is_transport r = 1 \<longleftrightarrow> boundary r) \<and> (is_transport r = 0 \<longleftrightarrow> \<not> boundary r)"
  by (simp add: is_transport_cases)

theorem is_transport_without_metabolites_witness:
  "rxn_metabolites rxn_empty = [] \<and> boundary rxn_empty \<and> is_transport rxn_empty = 1
   \<and> rxn_metabolites (rxn_empty\<lparr>boundary := False\<rparr>) = []
   \<and> is_transport (rxn_empty\<lparr>boundary := False\<rparr>) = 0"
proof -
  have a: "rxn_metabolites rxn_empty = []" by (simp add: rxn_empty_def)
  have b: "rxn_metabolites (rxn_empty\<lparr>boundary := False\<rparr>) = []" by (simp add: rxn_empty_def)
  have c: "boundary rxn_empty" by (simp add: rxn_empty_def)
  show ?thesis
    using a b c is_transport_without_metabolites [OF a] is_transport_without_metabolites [OF b]
    by simp
qed

section \<open>The mapping tables\<close>

text \<open>
  The claims about the tables are stated for a run that produces them: the translator
  returns a model whose reaction and metabolite lists are as long as the original ones,
  the positional correspondence that the specification asks of the translator. (With
  lists of different lengths the data frame constructor raises and no table is
  written, see \<open>export_mismatch\<close>.)

  Claim C1. In the reaction table written for a model, the final identifier of every
  reaction of the translated model is \<^verbatim>\<open>Transport removed\<close> when the reaction is
  classified transport and the canonicaliser's result on its translated identifier
  otherwise. Two reactions that are not transport, with translated identifiers
  \<^verbatim>\<open>MNXR1_c\<close> and \<^verbatim>\<open>MNXR1_e\<close>, both get \<^verbatim>\<open>MNXR1\<close>.
\<close>

theorem reaction_final_id:
  assumes "translate model ''metanetx'' = Inr mapped_model"
    and "length (reactions mapped_model) = length (reactions model)"
    and "length (metabolites mapped_model) = length (metabolites model)"
  shows "read_column (snd (export_mergem_mapping translate model name out fs))
           (rxn_csv_path out name) ''Final ID'' =
         Some (map (\<lambda>rxn. Str (if is_transport rxn = 1 then ''Transport removed''
                              else extract_core_id (rxn_id rxn)))
               (reactions mapped_model))
     \<and> (reactions mapped_model = [r1, r2] \<and> is_transport r1 \<noteq> 1 \<and> is_transport r2 \<noteq> 1
          \<and> rxn_id r1 = ''MNXR1_c'' \<and> rxn_id r2 = ''MNXR1_e'' \<longrightarrow>
        read_column (snd (export_mergem_mapping translate model name out fs))
           (rxn_csv_path out name) ''Final ID'' = Some [Str ''MNXR1'', Str ''MNXR1''])"
proof -
  have a: "(\<lambda>rxn. Str (if is_transport rxn = 0 then extract_core_id (rxn_id rxn)
                              else ''Transport removed'')) =
        (\<lambda>rxn. Str (if is_transport rxn = 1 then ''Transport removed''
                              else extract_core_id (rxn_id rxn)))"
    by (auto simp: fun_eq_iff is_transport_01)
  have b: "extract_core_id ''MNXR1_c'' = ''MNXR1''" "extract_core_id ''MNXR1_e'' = ''MNXR1''"
    by (simp_all add: extract_core_id_def re_match_def in_class_def)
  show ?thesis
    unfolding exported_rxn_columns [of translate model mapped_model, OF assms] a using b by simp
qed

theorem reaction_final_id_witness:
  "translate_same model_a ''metanetx'' = Inr model_a
   \<and> read_column (snd (export_mergem_mapping translate_same model_a ''au_CHO''
          ''mapping_results'' Map.empty))
        (rxn_csv_path ''mapping_results'' ''au_CHO'') ''Final ID'' =
      Some [Str ''MNXR1'', Str ''MNXR1'', Str ''Transport removed'', Str ''Transport removed'']"
proof -
  have h: "translate_same model_a ''metanetx'' = Inr model_a"
    by (simp add: translate_same_def)
  have t: "is_transport rxn_1c = 0" "is_transport rxn_1e = 0" "is_transport rxn_2 = 1"
    "is_transport rxn_3 = 1"
    by (simp_all add: is_transport_def rxn_1c_def rxn_1e_def rxn_2_def rxn_3_def met_c_def
        met_e_def)
  have i: "extract_core_id (rxn_id rxn_1c) = ''MNXR1''"
    "extract_core_id (rxn_id rxn_1e) = ''MNXR1''"
    by (simp_all add: rxn_1c_def rxn_1e_def extract_core_id_def re_match_def in_class_def)
  show ?thesis
    using h reaction_final_id [of translate_same model_a model_a "''au_CHO''"
        "''mapping_results''" Map.empty]
    by (simp add: model_a_def t i)
qed

text \<open>
  Claim C5. In the metabolite table written for a model, the final identifier of every
  metabolite of the translated model is the canonicaliser's result on its translated
  identifier; the transport class plays no part. \<^verbatim>\<open>MNXM5_c\<close> and \<^verbatim>\<open>MNXM5_e\<close> both
  give \<^verbatim>\<open>MNXM5\<close>. The canonicaliser returns the text \<^verbatim>\<open>Transport removed\<close> only on
  that very text, so no metabolite is given it as a tag.
\<close>

theorem metabolite_final_id:
  assumes "translate model ''metanetx'' = Inr mapped_model"
    and "length (reactions mapped_model) = length (reactions model)"
    and "length (metabolites mapped_model) = length (metabolites model)"
  shows "read_column (snd (export_mergem_mapping translate model name out fs))
           (met_csv_path out name) ''Final ID'' =
         Some (map (\<lambda>met. Str (extract_core_id (met_id met))) (metabolites mapped_model))
     \<and> extract_core_id ''MNXM5_c'' = ''MNXM5''
     \<and> extract_core_id ''MNXM5_e'' = ''MNXM5''
     \<and> (extract_core_id (met_id met) = ''Transport removed'' \<longleftrightarrow>
          met_id met = ''Transport removed'')"
proof -
  have "extract_core_id ''MNXM5_c'' = ''MNXM5''" "extract_core_id ''MNXM5_e'' = ''MNXM5''"
    by (simp_all add: extract_core_id_def re_match_def in_class_def)
  then show ?thesis
    using exported_met_columns [of translate model mapped_model, OF assms]
      extract_core_id_sentinel_iff [of "met_id met"]
    by simp
qed

theorem metabolite_final_id_witness:
  "translate_same model_a ''metanetx'' = Inr model_a
   \<and> read_column (snd (export_mergem_mapping translate_same model_a ''au_CHO''
          ''mapping_results'' Map.empty))
        (met_csv_path ''mapping_results'' ''au_CHO'') ''Final ID'' =
      Some [Str ''MNXM5'', Str ''MNXM5'']"
proof -
  have h: "translate_same model_a ''metanetx'' = Inr model_a"
    by (simp add: translate_same_def)
  have i: "extract_core_id (met_id met_c) = ''MNXM5''"
    "extract_core_id (met_id met_e) = ''MNXM5''"
    by (simp_all add: met_c_def met_e_def extract_core_id_def re_match_def in_class_def)
  show ?thesis
    using h metabolite_final_id [of translate_same model_a model_a "''au_CHO''"
        "''mapping_results''" Map.empty met_c]
    by (simp add: model_a_def i)
qed

text \<open>
  Claim C7 says that no final identifier is ever the empty string. The canonicaliser
  returns the empty string on the empty string, so a reaction that is not transport, or
  a metabolite, whose translated identifier is empty gets an empty final identifier.
\<close>

theorem final_id_empty_counterexample:
  "translate_same model_unnamed ''metanetx'' = Inr model_unnamed
   \<and> read_column (snd (export_mergem_mapping translate_same model_unnamed ''au_CHO''
          ''mapping_results'' Map.empty))
        (rxn_csv_path ''mapping_results'' ''au_CHO'') ''Final ID'' = Some [Str []]
   \<and> read_column (snd (export_mergem_mapping translate_same model_unnamed ''au_CHO''
          ''mapping_results'' Map.empty))
        (met_csv_path ''mapping_results'' ''au_CHO'') ''Final ID'' = Some [Str []]"
proof -
  have h: "translate_same model_unnamed ''metanetx'' = Inr model_unnamed"
    by (simp add: translate_same_def)
  have e: "extract_core_id [] = []" by (simp add: extract_core_id_def re_match_def)
  have t: "is_transport \<lparr>rxn_id = [], rxn_metabolites = [], boundary = False\<rparr> = 0"
    by (simp add: is_transport_def)
  show ?thesis
    using exported_rxn_columns [of translate_same model_unnamed model_unnamed "''au_CHO''"
        "''mapping_results''" Map.empty]
      exported_met_columns [of translate_same model_unnamed model_unnamed "''au_CHO''"
        "''mapping_results''" Map.empty] h
    by (simp add: model_unnamed_def e t)
qed

text \<open>
  Claim C7, as the code has it. Every final identifier of a reaction is the text
  \<^verbatim>\<open>Transport removed\<close> or the canonicaliser's result on the translated identifier,
  and it is empty exactly when the reaction is not transport and its translated
  identifier is empty. Every final identifier of a metabolite is the canonicaliser's
  result on the translated identifier, and it is empty exactly when the translated
  identifier is empty.
\<close>

theorem final_id_nonempty:
  assumes "translate model ''metanetx'' = Inr mapped_model"
    and "length (reactions mapped_model) = length (reactions model)"
    and "length (metabolites mapped_model) = length (metabolites model)"
  shows "\<exists>rxn_final met_final.
      read_column (snd (export_mergem_mapping translate model name out fs))
        (rxn_csv_path out name) ''Final ID'' = Some rxn_final
    \<and> read_column (snd (export_mergem_mapping translate model name out fs))
        (met_csv_path out name) ''Final ID'' = Some met_final
    \<and> list_all2 (\<lambda>rxn c.
          (c = Str ''Transport removed'' \<or> c = Str (extract_core_id (rxn_id rxn)))
          \<and> (c = Str [] \<longleftrightarrow> is_transport rxn = 0 \<and> rxn_id rxn = []))
        (reactions mapped_model) rxn_final
    \<and> list_all2 (\<lambda>met c.
          c = Str (extract_core_id (met_id met)) \<and> (c = Str [] \<longleftrightarrow> met_id met = []))
        (metabolites mapped_model) met_final"
proof -
  have "list_all2 (\<lambda>rxn c.
          (c = Str ''Transport removed'' \<or> c = Str (extract_core_id (rxn_id rxn)))
          \<and> (c = Str [] \<longleftrightarrow> is_transport rxn = 0 \<and> rxn_id rxn = []))
        (reactions mapped_model)
        (map (\<lambda>rxn. Str (if is_transport rxn = 0 then extract_core_id (rxn_id rxn)
                              else ''Transport removed''))
               (reactions mapped_model))"
    by (simp add: list_all2_map2 list_all2_same extract_core_id_Nil_iff)
  moreover have "list_all2 (\<lambda>met c.
          c = Str (extract_core_id (met_id met)) \<and> (c = Str [] \<longleftrightarrow> met_id met = []))
        (metabolites mapped_model)
        (map (\<lambda>met. Str (extract_core_id (met_id met))) (metabolites mapped_model))"
    by (simp add: list_all2_map2 list_all2_same extract_core_id_Nil_iff)
  ultimately show ?thesis
    using exported_rxn_columns [of translate model mapped_model, OF assms]
      exported_met_columns [of translate model mapped_model, OF assms]
    by simp
qed

theorem final_id_nonempty_witness:
  "translate_same model_b ''metanetx'' = Inr model_b
   \<and> (\<exists>rxn_final met_final.
      read_column (snd (export_mergem_mapping translate_same model_b ''au_CHO''
          ''mapping_results'' Map.empty))
        (rxn_csv_path ''mapping_results'' ''au_CHO'') ''Final ID'' = Some rxn_final
    \<and> read_column (snd (export_mergem_mapping translate_same model_b ''au_CHO''
          ''mapping_results'' Map.empty))
        (met_csv_path ''mapping_results'' ''au_CHO'') ''Final ID'' = Some met_final
    \<and> list_all2 (\<lambda>rxn c. c \<noteq> Str []) (reactions model_b) rxn_final
    \<and> list_all2 (\<lambda>met c. c \<noteq> Str []) (metabolites model_b) met_final)"
proof -
  have h: "translate_same model_b ''metanetx'' = Inr model_b"
    by (simp add: translate_same_def)
  have n: "list_all (\<lambda>rxn. rxn_id rxn \<noteq> []) (reactions model_b)"
    "list_all (\<lambda>met. met_id met \<noteq> []) (metabolites model_b)"
    by (simp_all add: model_b_def rxn_1c_def rxn_2_def met_c_def)
  from final_id_nonempty [of translate_same model_b model_b "''au_CHO''"
        "''mapping_results''" Map.empty] h
  obtain rxn_final met_final where
    a: "read_column (snd (export_mergem_mapping translate_same model_b ''au_CHO''
          ''mapping_results'' Map.empty))
        (rxn_csv_path ''mapping_results'' ''au_CHO'') ''Final ID'' = Some rxn_final"
    and b: "read_column (snd (export_mergem_mapping translate_same model_b ''au_CHO''
          ''mapping_results'' Map.empty))
        (met_csv_path ''mapping_results'' ''au_CHO'') ''Final ID'' = Some met_final"
    and c: "list_all2 (\<lambda>rxn c.
          (c = Str ''Transport removed'' \<or> c = Str (extract_core_id (rxn_id rxn)))
          \<and> (c = Str [] \<longleftrightarrow> is_transport rxn = 0 \<and> rxn_id rxn = []))
        (reactions model_b) rxn_final"
    and d: "list_all2 (\<lambda>met c.
          c = Str (extract_core_id (met_id met)) \<and> (c = Str [] \<longleftrightarrow> met_id met = []))
        (metabolites model_b) met_final"
    by auto
  have "list_all2 (\<lambda>rxn c. c \<noteq> Str []) (reactions model_b) rxn_final"
    using c n(1) by (auto simp: list_all2_conv_all_nth list_all_length)
  moreover have "list_all2 (\<lambda>met c. c \<noteq> Str []) (metabolites model_b) met_final"
    using d n(2) by (auto simp: list_all2_conv_all_nth list_all_length)
  ultimately show ?thesis using h a b by blast
qed

text \<open>
  Claim C8. When the translator returns a model, a run either writes both tables or
  writes nothing. It writes them when the translated lists are as long as the original
  ones: the reaction table then has one row for each reaction of the translated model
  and the metabolite table one row for each of its metabolites, every column has that
  length, and the identifier columns list the reactions and metabolites in the order
  of the model. Otherwise the data frame constructor raises and the files are left
  as they were.
\<close>

theorem record_lists_follow_translated_model:
  assumes "translate model ''metanetx'' = Inr mapped_model"
  shows "(length (reactions mapped_model) = length (reactions model)
          \<and> length (metabolites mapped_model) = length (metabolites model) \<longrightarrow>
          (\<exists>rxn_df met_df.
             export_mergem_mapping translate model name out fs =
               (Inr (), fs(rxn_csv_path out name \<mapsto> rxn_df, met_csv_path out name \<mapsto> met_df))
           \<and> nrows rxn_df = length (reactions mapped_model)
           \<and> nrows met_df = length (metabolites mapped_model)
           \<and> list_all (\<lambda>kv. length (snd kv) = length (reactions mapped_model)) rxn_df
           \<and> list_all (\<lambda>kv. length (snd kv) = length (metabolites mapped_model)) met_df
           \<and> column rxn_df ''Raw MetaNetX ID'' =
               Some (map (\<lambda>rxn. Str (rxn_id rxn)) (reactions mapped_model))
           \<and> column rxn_df ''Original ID'' =
               Some (map (\<lambda>rxn. Str (rxn_id rxn)) (reactions model))
           \<and> column rxn_df ''transport'' =
               Some (map (\<lambda>rxn. Num (is_transport rxn)) (reactions mapped_model))
           \<and> column met_df ''Raw MetaNetX ID'' =
               Some (map (\<lambda>met. Str (met_id met)) (metabolites mapped_model))
           \<and> column met_df ''Original ID'' =
               Some (map (\<lambda>met. Str (met_id met)) (metabolites model))))
     \<and> (length (reactions mapped_model) \<noteq> length (reactions model)
          \<or> length (metabolites mapped_model) \<noteq> length (metabolites model) \<longrightarrow>
          export_mergem_mapping translate model name out fs = (Inl ValueError, fs))"
proof (intro conjI impI)
  assume "length (reactions mapped_model) = length (reactions model)
          \<and> length (metabolites mapped_model) = length (metabolites model)"
  then have l: "length (reactions mapped_model) = length (reactions model)"
    "length (metabolites mapped_model) = length (metabolites model)" by simp_all
  show "\<exists>rxn_df met_df.
             export_mergem_mapping translate model name out fs =
               (Inr (), fs(rxn_csv_path out name \<mapsto> rxn_df, met_csv_path out name \<mapsto> met_df))
           \<and> nrows rxn_df = length (reactions mapped_model)
           \<and> nrows met_df = length (metabolites mapped_model)
           \<and> list_all (\<lambda>kv. length (snd kv) = length (reactions mapped_model)) rxn_df
           \<and> list_all (\<lambda>kv. length (snd kv) = length (metabolites mapped_model)) met_df
           \<and> column rxn_df ''Raw MetaNetX ID'' =
               Some (map (\<lambda>rxn. Str (rxn_id rxn)) (reactions mapped_model))
           \<and> column rxn_df ''Original ID'' =
               Some (map (\<lambda>rxn. Str (rxn_id rxn)) (reactions model))
           \<and> column rxn_df ''transport'' =
               Some (map (\<lambda>rxn. Num (is_transport rxn)) (reactions mapped_model))
           \<and> column met_df ''Raw MetaNetX ID'' =
               Some (map (\<lambda>met. Str (met_id met)) (metabolites mapped_model))
           \<and> column met_df ''Original ID'' =
               Some (map (\<lambda>met. Str (met_id met)) (metabolites model))"
    unfolding export_translated [of translate model mapped_model, OF assms l]
    by (intro exI conjI, rule refl) (simp_all add: nrows_def column_def l)
next
  assume "length (reactions mapped_model) \<noteq> length (reactions model)
          \<or> length (metabolites mapped_model) \<noteq> length (metabolites model)"
  then show "export_mergem_mapping translate model name out fs = (Inl ValueError, fs)"
    by (rule export_mismatch [of translate model mapped_model, OF assms])
qed

theorem record_lists_follow_translated_model_witness:
  "translate_same model_a ''metanetx'' = Inr model_a
   \<and> (\<exists>rxn_df met_df.
        export_mergem_mapping translate_same model_a ''au_CHO'' ''mapping_results'' Map.empty =
          (Inr (), [rxn_csv_path ''mapping_results'' ''au_CHO'' \<mapsto> rxn_df,
                    met_csv_path ''mapping_results'' ''au_CHO'' \<mapsto> met_df])
        \<and> nrows rxn_df = 4 \<and> nrows met_df = 2
        \<and> column rxn_df ''Raw MetaNetX ID'' =
             Some [Str ''MNXR1_c'', Str ''MNXR1_e'', Str ''MNXR2'', Str ''MNXR3_c'']
        \<and> column met_df ''Raw MetaNetX ID'' = Some [Str ''MNXM5_c'', Str ''MNXM5_e''])"
proof -
  have h: "translate_same model_a ''metanetx'' = Inr model_a"
    by (simp add: translate_same_def)
  have l: "length (reactions model_a) = 4" "length (metabolites model_a) = 2"
    "map (\<lambda>rxn. Str (rxn_id rxn)) (reactions model_a) =
       [Str ''MNXR1_c'', Str ''MNXR1_e'', Str ''MNXR2'', Str ''MNXR3_c'']"
    "map (\<lambda>met. Str (met_id met)) (metabolites model_a) = [Str ''MNXM5_c'', Str ''MNXM5_e'']"
    by (simp_all add: model_a_def rxn_1c_def rxn_1e_def rxn_2_def rxn_3_def met_c_def met_e_def)
  show ?thesis
    using h record_lists_follow_translated_model [of translate_same model_a model_a
        "''au_CHO''" "''mapping_results''" Map.empty]
    unfolding l by blast
qed

section \<open>Failures\<close>

text \<open>
  Claim C9. When the translator raises for a model, the exception leaves
  \<open>export_mergem_mapping\<close> before any table is built: the files are exactly what they
  were, so neither a reaction table nor a metabolite table is written for that model.
\<close>

theorem no_table_without_translation:
  assumes "translate model ''metanetx'' = Inl e"
  shows "export_mergem_mapping translate model name out fs = (Inl e, fs)
     \<and> snd (export_mergem_mapping translate model name out fs) (rxn_csv_path out name) =
         fs (rxn_csv_path out name)
     \<and> snd (export_mergem_mapping translate model name out fs) (met_csv_path out name) =
         fs (met_csv_path out name)"
  using export_failed [of translate model e, OF assms] by simp

theorem no_table_without_translation_witness:
  "translate_nonempty model_none ''metanetx'' = Inl TranslationError
   \<and> export_mergem_mapping translate_nonempty model_none ''au_CHO'' ''mapping_results'' Map.empty
       = (Inl TranslationError, Map.empty)
   \<and> snd (export_mergem_mapping translate_nonempty model_none ''au_CHO'' ''mapping_results''
          Map.empty) (rxn_csv_path ''mapping_results'' ''au_CHO'') = None
   \<and> snd (export_mergem_mapping translate_nonempty model_none ''au_CHO'' ''mapping_results''
          Map.empty) (met_csv_path ''mapping_results'' ''au_CHO'') = None"
proof -
  have h: "translate_nonempty model_none ''metanetx'' = Inl TranslationError"
    by (simp add: translate_nonempty_def model_none_def)
  show ?thesis
    using h no_table_without_translation [of translate_nonempty model_none TranslationError
        "''au_CHO''" "''mapping_results''" Map.empty]
    by simp
qed

text \<open>
  Claim C6 says that the other models of a batch are still mapped when one fails. The
  calls of a cell follow each other without a handler, so in a cell of three models
  whose first model the translator rejects, the two others, both translatable, get no
  file.
\<close>

theorem batch_stops_counterexample:
  "translate_nonempty model_none ''metanetx'' = Inl TranslationError
   \<and> translate_nonempty model_a ''metanetx'' = Inr model_a
   \<and> translate_nonempty model_b ''metanetx'' = Inr model_b
   \<and> mapping_AuReMe translate_nonempty model_none model_a model_b Map.empty =
       (Inl TranslationError, Map.empty)
   \<and> snd (mapping_AuReMe translate_nonempty model_none model_a model_b Map.empty)
       (rxn_csv_path output_mapping_path ''au_A_aegypti'') = None
   \<and> snd (mapping_AuReMe translate_nonempty model_none model_a model_b Map.empty)
       (met_csv_path output_mapping_path ''au_E_siliculosus'') = None"
proof -
  have a: "translate_nonempty model_none ''metanetx'' = Inl TranslationError"
    by (simp add: translate_nonempty_def model_none_def)
  have b: "translate_nonempty model_a ''metanetx'' = Inr model_a"
    "translate_nonempty model_b ''metanetx'' = Inr model_b"
    by (simp_all add: translate_nonempty_def model_a_def model_b_def)
  have "mapping_AuReMe translate_nonempty model_none model_a model_b Map.empty =
       (Inl TranslationError, Map.empty)"
    by (simp add: mapping_AuReMe_def export_failed [of translate_nonempty model_none TranslationError, OF a])
  then show ?thesis using a b by simp
qed

text \<open>
  Claim C6, as the code has it. When the processing of one model of a cell fails, be it
  by the translator or by the data frame constructor, the cell ends with that
  exception. In a cell whose model names are distinct, as those of the notebook are,
  every model before the failing one has its complete reaction table and its complete
  metabolite table on file, each with all its columns over the translated model, while
  the files of the failing model and of every model after it are what they were before
  the cell ran: nothing is written for them.
\<close>

theorem cell_stops_at_failure:
  assumes "fst (run_cell translate out before fs) = Inr ()"
    and "fst (export_mergem_mapping translate model name out
               (snd (run_cell translate out before fs))) = Inl e"
    and "distinct (map snd (before @ (model, name) # after))"
  shows "fst (run_cell translate out (before @ (model, name) # after) fs) = Inl e
    \<and> (\<forall>(m, n) \<in> set before.
         \<exists>mapped. translate m ''metanetx'' = Inr mapped
         \<and> snd (run_cell translate out (before @ (model, name) # after) fs)
             (rxn_csv_path out n) =
           Some [(''Original ID'', map (\<lambda>rxn. Str (rxn_id rxn)) (reactions m)),
                 (''Raw MetaNetX ID'', map (\<lambda>rxn. Str (rxn_id rxn)) (reactions mapped)),
                 (''transport'', map (\<lambda>rxn. Num (is_transport rxn)) (reactions mapped)),
                 (''Final ID'',
                  map (\<lambda>rxn. Str (if is_transport rxn = 0 then extract_core_id (rxn_id rxn)
                                   else ''Transport removed''))
                    (reactions mapped))]
         \<and> snd (run_cell translate out (before @ (model, name) # after) fs)
             (met_csv_path out n) =
           Some [(''Original ID'', map (\<lambda>met. Str (met_id met)) (metabolites m)),
                 (''Raw MetaNetX ID'', map (\<lambda>met. Str (met_id met)) (metabolites mapped)),
                 (''Final ID'',
                  map (\<lambda>met. Str (extract_core_id (met_id met))) (metabolites mapped))])
    \<and> (\<forall>(m, n) \<in> set ((model, name) # after).
         snd (run_cell translate out (before @ (model, name) # after) fs)
             (rxn_csv_path out n) = fs (rxn_csv_path out n)
         \<and> snd (run_cell translate out (before @ (model, name) # after) fs)
             (met_csv_path out n) = fs (met_csv_path out n))"
proof -
  let ?fs1 = "snd (run_cell translate out before fs)"
  have stop: "run_cell translate out (before @ (model, name) # after) fs = (Inl e, ?fs1)"
    using run_cell_append_ok [OF assms(1), of "(model, name) # after"]
      export_error_unchanged [OF assms(2)]
    by simp
  from assms(3) have d: "distinct (map snd before)" by simp
  have later: "n \<notin> snd ` set before" if "(m, n) \<in> set ((model, name) # after)" for m n
    using that assms(3) by (auto simp: image_iff) force+
  show ?thesis
    unfolding stop
    using run_cell_ok_files [OF assms(1) d] run_cell_other_paths [OF later, of _ _ translate out fs]
    by auto
qed

theorem cell_stops_at_failure_witness:
  "fst (run_cell translate_nonempty output_mapping_path [(model_a, ''au_CHO'')] Map.empty)
     = Inr ()
   \<and> fst (export_mergem_mapping translate_nonempty model_none ''au_A_aegypti''
        output_mapping_path
        (snd (run_cell translate_nonempty output_mapping_path [(model_a, ''au_CHO'')]
           Map.empty))) = Inl TranslationError
   \<and> distinct (map snd [(model_a, ''au_CHO''), (model_none, ''au_A_aegypti''),
        (model_b, ''au_E_siliculosus'')])
   \<and> fst (mapping_AuReMe translate_nonempty model_a model_none model_b Map.empty) =
       Inl TranslationError
   \<and> snd (mapping_AuReMe translate_nonempty model_a model_none model_b Map.empty)
       (rxn_csv_path output_mapping_path ''au_CHO'') =
       Some [(''Original ID'', [Str ''MNXR1_c'', Str ''MNXR1_e'', Str ''MNXR2'', Str ''MNXR3_c'']),
             (''Raw MetaNetX ID'',
              [Str ''MNXR1_c'', Str ''MNXR1_e'', Str ''MNXR2'', Str ''MNXR3_c'']),
             (''transport'', [Num 0, Num 0, Num 1, Num 1]),
             (''Final ID'',
              [Str ''MNXR1'', Str ''MNXR1'', Str ''Transport removed'',
               Str ''Transport removed''])]
   \<and> snd (mapping_AuReMe translate_nonempty model_a model_none model_b Map.empty)
       (met_csv_path output_mapping_path ''au_CHO'') =
       Some [(''Original ID'', [Str ''MNXM5_c'', Str ''MNXM5_e'']),
             (''Raw MetaNetX ID'', [Str ''MNXM5_c'', Str ''MNXM5_e'']),
             (''Final ID'', [Str ''MNXM5'', Str ''MNXM5''])]
   \<and> snd (mapping_AuReMe translate_nonempty model_a model_none model_b Map.empty)
       (rxn_csv_path output_mapping_path ''au_A_aegypti'') = None
   \<and> snd (mapping_AuReMe translate_nonempty model_a model_none model_b Map.empty)
       (met_csv_path output_mapping_path ''au_A_aegypti'') = None
   \<and> snd (mapping_AuReMe translate_nonempty model_a model_none model_b Map.empty)
       (rxn_csv_path output_mapping_path ''au_E_siliculosus'') = None
   \<and> snd (mapping_AuReMe translate_nonempty model_a model_none model_b Map.empty)
       (met_csv_path output_mapping_path ''au_E_siliculosus'') = None"
proof -
  have n: "reactions model_a \<noteq> []" by (simp add: model_a_def)
  have ta: "translate_nonempty model_a ''metanetx'' = Inr model_a"
    using n by (rule translate_nonempty_ok)
  have tn: "translate_nonempty model_none ''metanetx'' = Inl TranslationError"
    by (simp add: translate_nonempty_def model_none_def)
  have a: "fst (run_cell translate_nonempty output_mapping_path [(model_a, ''au_CHO'')]
      Map.empty) = Inr ()"
    by (simp add: export_translated [of translate_nonempty model_a model_a] ta)
  have b: "fst (export_mergem_mapping translate_nonempty model_none ''au_A_aegypti''
        output_mapping_path
        (snd (run_cell translate_nonempty output_mapping_path [(model_a, ''au_CHO'')]
           Map.empty))) = Inl TranslationError"
    by (simp add: export_failed [of translate_nonempty model_none TranslationError, OF tn])
  have c: "distinct (map snd [(model_a, ''au_CHO''), (model_none, ''au_A_aegypti''),
        (model_b, ''au_E_siliculosus'')])"
    by simp
  have t: "is_transport rxn_1c = 0" "is_transport rxn_1e = 0" "is_transport rxn_2 = 1"
    "is_transport rxn_3 = 1"
    by (simp_all add: is_transport_def rxn_1c_def rxn_1e_def rxn_2_def rxn_3_def met_c_def
        met_e_def)
  have i: "extract_core_id ''MNXR1_c'' = ''MNXR1''" "extract_core_id ''MNXR1_e'' = ''MNXR1''"
    "extract_core_id ''MNXM5_c'' = ''MNXM5''" "extract_core_id ''MNXM5_e'' = ''MNXM5''"
    by (simp_all add: extract_core_id_def re_match_def in_class_def)
  have r: "reactions model_a = [rxn_1c, rxn_1e, rxn_2, rxn_3]"
    "metabolites model_a = [met_c, met_e]"
    "rxn_id rxn_1c = ''MNXR1_c''" "rxn_id rxn_1e = ''MNXR1_e''" "rxn_id rxn_2 = ''MNXR2''"
    "rxn_id rxn_3 = ''MNXR3_c''" "met_id met_c = ''MNXM5_c''" "met_id met_e = ''MNXM5_e''"
    by (simp_all add: model_a_def rxn_1c_def rxn_1e_def rxn_2_def rxn_3_def met_c_def
        met_e_def)
  have m: "mapping_AuReMe translate_nonempty model_a model_none model_b Map.empty =
      run_cell translate_nonempty output_mapping_path
        ([(model_a, ''au_CHO'')] @ (model_none, ''au_A_aegypti'')
           # [(model_b, ''au_E_siliculosus'')]) Map.empty"
    by (simp add: mapping_AuReMe_def)
  show ?thesis
    unfolding m
    using cell_stops_at_failure [of translate_nonempty output_mapping_path
        "[(model_a, ''au_CHO'')]" Map.empty model_none "''au_A_aegypti''" TranslationError
        "[(model_b, ''au_E_siliculosus'')]", OF a b] c a b
    by (simp add: ta r t i)
qed

end
